theory Spec2Isabelle
  imports Main "HOL-Library.Char_ord" "HOL-Library.List_Lexorder" "HOL-Library.Multiset"
begin

section \<open>Data custody layer of the X-ray management system\<close>

text \<open>
  A shallow embedding of \<^verbatim>\<open>src/security/auth_manager.py\<close> (class AuthManager) and
  \<^verbatim>\<open>src/database/database_manager.py\<close> (class DatabaseManager).

  Python \<^verbatim>\<open>str\<close> and \<^verbatim>\<open>bytes\<close> values are \<^typ>\<open>string\<close>; Python integers are
  \<^typ>\<open>int\<close>. SQLite \<^verbatim>\<open>TIMESTAMP\<close> columns hold text, so a timestamp is a
  \<^typ>\<open>string\<close> too, compared bytewise as SQLite's default collation does.
\<close>

type_synonym bytes = string
type_synonym timestamp = string

subsection \<open>The session held by AuthManager\<close>

text \<open>
  \<^verbatim>\<open>user_data\<close>, the dictionary that \<^verbatim>\<open>authenticate_user\<close> builds and stores in
  \<^verbatim>\<open>self.current_user\<close>; its six keys are the fields.
\<close>

record user_data =
  ud_id :: int
  ud_username :: string
  ud_role :: string
  ud_full_name :: string
  ud_email :: "string option"
  ud_login_time :: timestamp

text \<open>The one attribute of AuthManager that its methods change: \<^verbatim>\<open>self.current_user\<close>.\<close>

record auth_manager =
  current_user :: "user_data option"

subsection \<open>Role-based permissions\<close>

text \<open>The dictionary literal \<^verbatim>\<open>permissions\<close> of \<^verbatim>\<open>has_permission\<close>, in source order.\<close>

definition permissions :: "(string \<times> string list) list" where
  "permissions =
    [(''admin'',
        [''view_patients'', ''add_patients'', ''edit_patients'', ''delete_patients'',
         ''view_xrays'', ''add_xrays'', ''edit_xrays'', ''delete_xrays'',
         ''view_users'', ''add_users'', ''edit_users'', ''delete_users'',
         ''view_equipment'', ''add_equipment'', ''edit_equipment'', ''delete_equipment'',
         ''view_audit_logs'', ''view_usage_logs'', ''system_admin'']),
     (''radiologist'',
        [''view_patients'', ''view_xrays'', ''edit_xrays'', ''add_annotations'',
         ''view_equipment'', ''view_usage_logs'']),
     (''technician'',
        [''view_patients'', ''add_patients'', ''view_xrays'', ''add_xrays'',
         ''view_equipment'', ''add_usage_logs''])]"

text \<open>\<^verbatim>\<open>permissions.get(role, [])\<close>: the role's list, or the empty list for an unmapped role.\<close>

definition permissions_get :: "string \<Rightarrow> string list" where
  "permissions_get role =
     (case map_of permissions role of None \<Rightarrow> [] | Some ps \<Rightarrow> ps)"

text \<open>
  \<^verbatim>\<open>has_permission(self, permission)\<close>: False when there is no current user, otherwise
  membership of the permission in the list of the current user's role. It reads
  \<^verbatim>\<open>self.current_user\<close> and writes nothing, so the model returns the boolean only.
\<close>

definition has_permission :: "auth_manager \<Rightarrow> string \<Rightarrow> bool" where
  "has_permission am permission =
     (case current_user am of
        None \<Rightarrow> False
      | Some user \<Rightarrow> permission \<in> set (permissions_get (ud_role user)))"

subsection \<open>External libraries\<close>

text \<open>
  The values a patient dictionary holds in this layer: text fields given by the
  caller, the integer row id that \<^verbatim>\<open>get_patient\<close> adds, and \<^verbatim>\<open>None\<close>. A Python
  \<^verbatim>\<open>dict\<close> with string keys is a map; equality of maps is equality of dicts.
\<close>

datatype pyval = PyStr string | PyInt int | PyNone

type_synonym pydict = "string \<rightharpoonup> pyval"

text \<open>
  The functions of \<^verbatim>\<open>cryptography.fernet\<close>, \<^verbatim>\<open>json\<close>, \<^verbatim>\<open>bcrypt\<close> and the UTF-8 codec of
  \<^verbatim>\<open>str.encode\<close> / \<^verbatim>\<open>bytes.decode\<close> are not code of this repository: they are
  parameters of the model. A result \<open>None\<close> stands for the exception the library
  raises (\<^verbatim>\<open>InvalidToken\<close>, \<^verbatim>\<open>UnicodeDecodeError\<close>, \<^verbatim>\<open>JSONDecodeError\<close>, \<^verbatim>\<open>ValueError\<close>).
  \<^verbatim>\<open>Fernet.encrypt\<close> draws a fresh IV and reads the clock: that entropy is the
  second argument of \<open>fernet_encrypt\<close>; the first is the key. The salt drawn by
  \<^verbatim>\<open>bcrypt.gensalt()\<close> is the second argument of \<open>bcrypt_hashpw\<close>.
\<close>

record library =
  fernet_encrypt :: "bytes \<Rightarrow> bytes \<Rightarrow> bytes \<Rightarrow> bytes"
  fernet_decrypt :: "bytes \<Rightarrow> bytes \<Rightarrow> bytes option"
  utf8_encode :: "string \<Rightarrow> bytes"
  utf8_decode :: "bytes \<Rightarrow> string option"
  json_dumps :: "pydict \<Rightarrow> string"
  json_loads :: "string \<Rightarrow> pydict option"
  bcrypt_hashpw :: "bytes \<Rightarrow> bytes \<Rightarrow> bytes option"
  bcrypt_checkpw :: "bytes \<Rightarrow> bytes \<Rightarrow> bool option"

text \<open>The exceptions that the modelled methods raise or let through.\<close>

datatype py_error =
    FileExistsError | IsADirectoryError | PermissionError
  | KeyError | IntegrityError | OverflowError | OperationalError
  | InvalidToken | UnicodeDecodeError | JSONDecodeError

subsection \<open>The key file\<close>

text \<open>
  The part of the file system that \<^verbatim>\<open>_load_or_create_key\<close> touches: a path is absent,
  a directory, or a regular file with a readable flag and a content.
\<close>

datatype fs_node = Directory | RegularFile bool bytes

type_synonym filesystem = "string \<rightharpoonup> fs_node"

text \<open>\<^verbatim>\<open>os.makedirs(d, exist_ok=True)\<close> for a single path component.\<close>

definition makedirs_exist_ok :: "filesystem \<Rightarrow> string \<Rightarrow> py_error + filesystem" where
  "makedirs_exist_ok fs d =
     (case fs d of
        None \<Rightarrow> Inr (fs(d \<mapsto> Directory))
      | Some Directory \<Rightarrow> Inr fs
      | Some (RegularFile readable content) \<Rightarrow> Inl FileExistsError)"

definition key_file :: string where
  "key_file = ''data/encryption.key''"

text \<open>
  \<^verbatim>\<open>_load_or_create_key(self)\<close>. The argument \<open>generated\<close> is what
  \<^verbatim>\<open>Fernet.generate_key()\<close> returns when it is called; only the \<^verbatim>\<open>else\<close> branch uses it.
  The result is the file system afterwards and the key, or the exception that
  \<^verbatim>\<open>os.makedirs\<close> or \<^verbatim>\<open>open\<close> raises (the method catches nothing).
\<close>

definition load_or_create_key :: "filesystem \<Rightarrow> bytes \<Rightarrow> filesystem \<times> (py_error + bytes)" where
  "load_or_create_key fs generated =
     (case makedirs_exist_ok fs ''data'' of
        Inl e \<Rightarrow> (fs, Inl e)
      | Inr fs1 \<Rightarrow>
          (case fs1 key_file of
             Some Directory \<Rightarrow> (fs1, Inl IsADirectoryError)
           | Some (RegularFile readable content) \<Rightarrow>
               if readable then (fs1, Inr content) else (fs1, Inl PermissionError)
           | None \<Rightarrow> (fs1(key_file \<mapsto> RegularFile True generated), Inr generated)))"

subsection \<open>The cipher envelope\<close>

text \<open>\<^verbatim>\<open>_encrypt_data\<close> and \<^verbatim>\<open>_decrypt_data\<close>; \<open>key\<close> is \<^verbatim>\<open>self.encryption_key\<close>.\<close>

definition encrypt_data :: "library \<Rightarrow> bytes \<Rightarrow> bytes \<Rightarrow> string \<Rightarrow> bytes" where
  "encrypt_data L key iv data = fernet_encrypt L key iv (utf8_encode L data)"

definition decrypt_data :: "library \<Rightarrow> bytes \<Rightarrow> bytes \<Rightarrow> py_error + string" where
  "decrypt_data L key encrypted_data =
     (case fernet_decrypt L key encrypted_data of
        None \<Rightarrow> Inl InvalidToken
      | Some plain \<Rightarrow>
          (case utf8_decode L plain of
             None \<Rightarrow> Inl UnicodeDecodeError
           | Some s \<Rightarrow> Inr s))"

subsection \<open>The database\<close>

text \<open>
  One record per table row, with the columns of \<^verbatim>\<open>initialize_database\<close>. Every id is
  \<^verbatim>\<open>INTEGER PRIMARY KEY AUTOINCREMENT\<close>: the table's counter (\<^verbatim>\<open>sqlite_sequence\<close>)
  holds the largest id ever given, and an insert takes the next one. Rows are kept
  in insertion order. Foreign keys are declared but SQLite does not enforce them
  unless asked to. A failure of the storage itself (\<^verbatim>\<open>sqlite3.OperationalError\<close> from
  \<^verbatim>\<open>connect\<close>, \<^verbatim>\<open>execute\<close> or \<^verbatim>\<open>commit\<close>: a locked database, a full disk, a missing
  table) is an input of \<open>add_patient_on\<close> below, where the method writes on two
  connections one after the other; the other methods are modelled on storage that
  works.
\<close>

record user_row =
  u_id :: int
  u_username :: string
  u_password_hash :: bytes
  u_role :: string
  u_full_name :: string
  u_email :: "string option"
  u_created_at :: timestamp
  u_last_login :: "timestamp option"
  u_is_active :: bool

record patient_row =
  p_id :: int
  p_patient_id :: string
  p_encrypted_data :: bytes
  p_created_at :: timestamp
  p_updated_at :: timestamp

record usage_row =
  ul_id :: int
  ul_user_id :: int
  ul_equipment_id :: "int option"
  ul_action :: string
  ul_details :: string
  ul_timestamp :: timestamp

record audit_row =
  al_id :: int
  al_user_id :: "int option"
  al_action :: string
  al_resource_type :: string
  al_resource_id :: int
  al_details :: string
  al_ip_address :: "string option"
  al_timestamp :: timestamp

record database =
  users :: "user_row list"
  users_seq :: int
  patients :: "patient_row list"
  patients_seq :: int
  usage_logs :: "usage_row list"
  usage_logs_seq :: int
  audit_logs :: "audit_row list"
  audit_logs_seq :: int

text \<open>
  \<^verbatim>\<open>_log_audit_action\<close>: one \<^verbatim>\<open>INSERT INTO audit_logs\<close> on a connection of its own,
  committed. \<^verbatim>\<open>ip_address\<close> is not given and stays NULL; \<open>now\<close> is \<^verbatim>\<open>CURRENT_TIMESTAMP\<close>.
\<close>

definition log_audit_action ::
  "database \<Rightarrow> int option \<Rightarrow> string \<Rightarrow> string \<Rightarrow> int \<Rightarrow> string \<Rightarrow> timestamp \<Rightarrow> database" where
  "log_audit_action db user_id action resource_type resource_id details now =
     db\<lparr>audit_logs := audit_logs db @
           [\<lparr>al_id = audit_logs_seq db + 1, al_user_id = user_id, al_action = action,
             al_resource_type = resource_type, al_resource_id = resource_id,
             al_details = details, al_ip_address = None, al_timestamp = now\<rparr>],
        audit_logs_seq := audit_logs_seq db + 1\<rparr>"

subsection \<open>Record store: add_patient and get_patient\<close>

text \<open>
  The decimal text of an integer: what SQLite stores when an integer is bound to
  a column of \<^verbatim>\<open>TEXT\<close> affinity.
\<close>

fun decimal_nat :: "nat \<Rightarrow> string" where
  "decimal_nat n =
     (if n < 10 then [char_of (48 + n)]
      else decimal_nat (n div 10) @ [char_of (48 + n mod 10)])"

definition decimal :: "int \<Rightarrow> string" where
  "decimal i = (if i < 0 then CHR ''-'' # decimal_nat (nat (- i)) else decimal_nat (nat i))"

text \<open>
  Binding \<^verbatim>\<open>patient_data['patient_id']\<close> to the column \<^verbatim>\<open>patient_id TEXT UNIQUE NOT NULL\<close>:
  a string is stored as it is, an integer as its decimal text (the \<^verbatim>\<open>sqlite3\<close> module
  raises OverflowError outside 64 bits), and \<^verbatim>\<open>None\<close> violates \<^verbatim>\<open>NOT NULL\<close>.
\<close>

fun bind_patient_id :: "pyval \<Rightarrow> py_error + string" where
  "bind_patient_id (PyStr s) = Inr s"
| "bind_patient_id (PyInt i) =
     (if - (2 ^ 63) \<le> i \<and> i < 2 ^ 63 then Inr (decimal i) else Inl OverflowError)"
| "bind_patient_id PyNone = Inl IntegrityError"

text \<open>
  \<^verbatim>\<open>add_patient(self, patient_data)\<close>. The payload is serialised and encrypted first;
  then \<^verbatim>\<open>patient_data['patient_id']\<close> is read (KeyError when absent) and the row is
  inserted and committed (IntegrityError when the patient id is already in the
  table); then \<^verbatim>\<open>_log_audit_action\<close> appends the \<^verbatim>\<open>CREATE\<close> entry with no acting user.
  Each of these exceptions leaves the \<^verbatim>\<open>with\<close> block before the commit, so the
  database is as before. \<open>t_insert\<close> and \<open>t_audit\<close> are \<^verbatim>\<open>CURRENT_TIMESTAMP\<close> at the
  two inserts. The method takes no caller and checks no permission. This is the
  method on storage that works; \<open>add_patient_on\<close> below is the method with the
  storage's behaviour as an input.
\<close>

definition add_patient ::
  "library \<Rightarrow> bytes \<Rightarrow> database \<Rightarrow> pydict \<Rightarrow> bytes \<Rightarrow> timestamp \<Rightarrow> timestamp
     \<Rightarrow> database \<times> (py_error + int)" where
  "add_patient L key db patient_data iv t_insert t_audit =
     (let encrypted_data = encrypt_data L key iv (json_dumps L patient_data) in
      case patient_data ''patient_id'' of
        None \<Rightarrow> (db, Inl KeyError)
      | Some v \<Rightarrow>
          (case bind_patient_id v of
             Inl e \<Rightarrow> (db, Inl e)
           | Inr pid \<Rightarrow>
               if pid \<in> set (map p_patient_id (patients db)) then (db, Inl IntegrityError)
               else
                 let patient_id = patients_seq db + 1;
                     db1 = db\<lparr>patients := patients db @
                                [\<lparr>p_id = patient_id, p_patient_id = pid,
                                  p_encrypted_data = encrypted_data,
                                  p_created_at = t_insert, p_updated_at = t_insert\<rparr>],
                              patients_seq := patient_id\<rparr>;
                     db2 = log_audit_action db1 None ''CREATE'' ''patient'' patient_id
                             ''New patient added'' t_audit
                 in (db2, Inr patient_id)))"

text \<open>
  What the storage does during one call of \<^verbatim>\<open>add_patient\<close>: it works; or the insert
  or commit of the row on the first connection raises; or the insert or commit of
  the audit entry, on the connection that \<^verbatim>\<open>_log_audit_action\<close> opens, raises.
\<close>

datatype storage = Working | FailsOnPatientInsert | FailsOnAuditInsert

text \<open>
  \<^verbatim>\<open>add_patient(self, patient_data)\<close> with the storage as an input. The row is
  written and committed on the first connection (\<^verbatim>\<open>conn.commit()\<close>); only then does
  \<^verbatim>\<open>_log_audit_action\<close> open a second connection, insert the audit entry and commit
  it. A failure at the row leaves the \<^verbatim>\<open>with\<close> block before the commit: nothing is
  stored. A failure at the audit entry is raised out of \<^verbatim>\<open>add_patient\<close>, which
  catches nothing, after the row was committed: the row stays and no audit entry
  is written. Where both a constraint and the storage would fail the row, the
  constraint's error is the one reported; the database is unchanged either way.
\<close>

definition add_patient_on ::
  "storage \<Rightarrow> library \<Rightarrow> bytes \<Rightarrow> database \<Rightarrow> pydict \<Rightarrow> bytes \<Rightarrow> timestamp \<Rightarrow> timestamp
     \<Rightarrow> database \<times> (py_error + int)" where
  "add_patient_on st L key db patient_data iv t_insert t_audit =
     (let encrypted_data = encrypt_data L key iv (json_dumps L patient_data) in
      case patient_data ''patient_id'' of
        None \<Rightarrow> (db, Inl KeyError)
      | Some v \<Rightarrow>
          (case bind_patient_id v of
             Inl e \<Rightarrow> (db, Inl e)
           | Inr pid \<Rightarrow>
               if pid \<in> set (map p_patient_id (patients db)) then (db, Inl IntegrityError)
               else if st = FailsOnPatientInsert then (db, Inl OperationalError)
               else
                 let patient_id = patients_seq db + 1;
                     db1 = db\<lparr>patients := patients db @
                                [\<lparr>p_id = patient_id, p_patient_id = pid,
                                  p_encrypted_data = encrypted_data,
                                  p_created_at = t_insert, p_updated_at = t_insert\<rparr>],
                              patients_seq := patient_id\<rparr>
                 in
                   if st = FailsOnAuditInsert then (db1, Inl OperationalError)
                   else
                     (log_audit_action db1 None ''CREATE'' ''patient'' patient_id
                        ''New patient added'' t_audit,
                      Inr patient_id)))"

text \<open>
  \<^verbatim>\<open>get_patient(self, patient_id)\<close>: the first row with that patient id, decrypted,
  parsed, and updated with the keys \<^verbatim>\<open>id\<close>, \<^verbatim>\<open>created_at\<close> and \<^verbatim>\<open>updated_at\<close> of the row;
  \<^verbatim>\<open>None\<close> when there is no such row. It executes one \<^verbatim>\<open>SELECT\<close> and nothing else: the
  database it returns is the one it was given.
\<close>

definition get_patient ::
  "library \<Rightarrow> bytes \<Rightarrow> database \<Rightarrow> string \<Rightarrow> database \<times> (py_error + pydict option)" where
  "get_patient L key db patient_id =
     (case find (\<lambda>r. p_patient_id r = patient_id) (patients db) of
        None \<Rightarrow> (db, Inr None)
      | Some row \<Rightarrow>
          (case decrypt_data L key (p_encrypted_data row) of
             Inl e \<Rightarrow> (db, Inl e)
           | Inr plaintext \<Rightarrow>
               (case json_loads L plaintext of
                  None \<Rightarrow> (db, Inl JSONDecodeError)
                | Some patient_data \<Rightarrow>
                    (db, Inr (Some (patient_data
                       (''id'' \<mapsto> PyInt (p_id row),
                        ''created_at'' \<mapsto> PyStr (p_created_at row),
                        ''updated_at'' \<mapsto> PyStr (p_updated_at row))))))))"

subsection \<open>Audit ledger: get_audit_logs\<close>

text \<open>
  A row of the result of \<^verbatim>\<open>get_audit_logs\<close>: the seven keys of the dictionaries it
  returns.
\<close>

record audit_view =
  av_id :: int
  av_username :: string
  av_action :: string
  av_resource_type :: string
  av_resource_id :: int
  av_details :: string
  av_timestamp :: timestamp

text \<open>
  \<^verbatim>\<open>LEFT JOIN users u ON al.user_id = u.id\<close>: the username of the user with that id
  (\<^verbatim>\<open>id\<close> is the primary key, so there is at most one), NULL when \<^verbatim>\<open>user_id\<close> is NULL
  or no user has it.
\<close>

definition join_username :: "user_row list \<Rightarrow> int option \<Rightarrow> string option" where
  "join_username us user_id =
     (case user_id of
        None \<Rightarrow> None
      | Some uid \<Rightarrow> map_option u_username (find (\<lambda>u. u_id u = uid) us))"

text \<open>\<^verbatim>\<open>row[1] or 'System'\<close>: NULL and the empty string both give \<^verbatim>\<open>'System'\<close>.\<close>

definition username_or_system :: "string option \<Rightarrow> string" where
  "username_or_system u =
     (case u of None \<Rightarrow> ''System'' | Some n \<Rightarrow> if n = [] then ''System'' else n)"

definition audit_view_of :: "user_row list \<Rightarrow> audit_row \<Rightarrow> audit_view" where
  "audit_view_of us al =
     \<lparr>av_id = al_id al,
      av_username = username_or_system (join_username us (al_user_id al)),
      av_action = al_action al, av_resource_type = al_resource_type al,
      av_resource_id = al_resource_id al, av_details = al_details al,
      av_timestamp = al_timestamp al\<rparr>"

text \<open>
  \<^verbatim>\<open>ORDER BY al.timestamp DESC\<close>: the rows by descending timestamp. Rows with equal
  timestamps (\<^verbatim>\<open>CURRENT_TIMESTAMP\<close> counts whole seconds) come out of SQLite in the
  order of the table, oldest first: the stable ascending sort of the reversed
  table, reversed.
\<close>

definition order_by_timestamp_desc :: "audit_row list \<Rightarrow> audit_row list" where
  "order_by_timestamp_desc rows = rev (sort_key al_timestamp (rev rows))"

text \<open>
  \<^verbatim>\<open>get_audit_logs(self, limit)\<close>. \<^verbatim>\<open>LIMIT ?\<close> with a negative value is no limit in
  SQLite; the \<^verbatim>\<open>sqlite3\<close> module raises OverflowError for a limit outside 64 bits.
\<close>

definition get_audit_logs :: "database \<Rightarrow> int \<Rightarrow> py_error + audit_view list" where
  "get_audit_logs db limit =
     (if \<not> (- (2 ^ 63) \<le> limit \<and> limit < 2 ^ 63) then Inl OverflowError
      else
        let ordered = order_by_timestamp_desc (audit_logs db);
            limited = (if limit < 0 then ordered else take (nat limit) ordered)
        in Inr (map (audit_view_of (users db)) limited))"

subsection \<open>Authenticator and credential store\<close>

text \<open>\<^verbatim>\<open>UPDATE users SET ... WHERE id = ?\<close>: the change applied to every row with that id.\<close>

definition update_user :: "int \<Rightarrow> (user_row \<Rightarrow> user_row) \<Rightarrow> user_row list \<Rightarrow> user_row list" where
  "update_user uid f us = map (\<lambda>u. if u_id u = uid then f u else u) us"

text \<open>
  \<^verbatim>\<open>authenticate_user(self, username, password)\<close>. The row is looked up by exact
  username; an unknown username, an inactive row and a wrong password each return
  \<^verbatim>\<open>None\<close>, and so does an exception of \<^verbatim>\<open>bcrypt.checkpw\<close>, which the \<^verbatim>\<open>except\<close> clause
  catches. On success \<^verbatim>\<open>last_login\<close> is set and committed, \<^verbatim>\<open>self.current_user\<close> is set
  and the user data returned. \<open>t_update\<close> and \<open>t_login\<close> are the two readings of
  \<^verbatim>\<open>datetime.now()\<close>. The messages go to the Python logger only; no table but
  \<^verbatim>\<open>users\<close> is written.
\<close>

definition authenticate_user ::
  "library \<Rightarrow> auth_manager \<Rightarrow> database \<Rightarrow> string \<Rightarrow> string \<Rightarrow> timestamp \<Rightarrow> timestamp
     \<Rightarrow> auth_manager \<times> database \<times> user_data option" where
  "authenticate_user L am db username password t_update t_login =
     (case find (\<lambda>u. u_username u = username) (users db) of
        None \<Rightarrow> (am, db, None)
      | Some row \<Rightarrow>
          if \<not> u_is_active row then (am, db, None)
          else
            (case bcrypt_checkpw L (utf8_encode L password) (u_password_hash row) of
               None \<Rightarrow> (am, db, None)
             | Some False \<Rightarrow> (am, db, None)
             | Some True \<Rightarrow>
                 let db1 = db\<lparr>users :=
                             update_user (u_id row) (\<lambda>u. u\<lparr>u_last_login := Some t_update\<rparr>)
                               (users db)\<rparr>;
                     user = \<lparr>ud_id = u_id row, ud_username = u_username row,
                             ud_role = u_role row, ud_full_name = u_full_name row,
                             ud_email = u_email row, ud_login_time = t_login\<rparr>
                 in (am\<lparr>current_user := Some user\<rparr>, db1, Some user)))"

text \<open>
  \<^verbatim>\<open>change_password(self, user_id, old_password, new_password)\<close>: False when no row
  has the id, when the old password does not verify, or when bcrypt raises;
  otherwise the hash of the new password replaces the stored one. The new password
  is hashed as it is given.
\<close>

definition change_password ::
  "library \<Rightarrow> database \<Rightarrow> int \<Rightarrow> string \<Rightarrow> string \<Rightarrow> bytes \<Rightarrow> database \<times> bool" where
  "change_password L db user_id old_password new_password salt =
     (case find (\<lambda>u. u_id u = user_id) (users db) of
        None \<Rightarrow> (db, False)
      | Some row \<Rightarrow>
          (case bcrypt_checkpw L (utf8_encode L old_password) (u_password_hash row) of
             None \<Rightarrow> (db, False)
           | Some False \<Rightarrow> (db, False)
           | Some True \<Rightarrow>
               (case bcrypt_hashpw L (utf8_encode L new_password) salt of
                  None \<Rightarrow> (db, False)
                | Some new_hash \<Rightarrow>
                    (db\<lparr>users :=
                         update_user user_id (\<lambda>u. u\<lparr>u_password_hash := new_hash\<rparr>)
                           (users db)\<rparr>,
                     True))))"

text \<open>
  \<^verbatim>\<open>create_user(self, username, password, role, full_name, email)\<close>: False at once
  when the current user lacks \<^verbatim>\<open>add_users\<close>; False when bcrypt raises; False when
  the insert violates \<^verbatim>\<open>username TEXT UNIQUE\<close> (sqlite3.IntegrityError; the default
  collation compares bytes, so the match is exact and case-sensitive); otherwise
  the row is inserted with the next id, \<^verbatim>\<open>created_at = CURRENT_TIMESTAMP\<close>, no
  \<^verbatim>\<open>last_login\<close> and \<^verbatim>\<open>is_active = 1\<close>, and the result is True.
\<close>

definition create_user ::
  "library \<Rightarrow> auth_manager \<Rightarrow> database \<Rightarrow> string \<Rightarrow> string \<Rightarrow> string \<Rightarrow> string
     \<Rightarrow> string option \<Rightarrow> bytes \<Rightarrow> timestamp \<Rightarrow> database \<times> bool" where
  "create_user L am db username password role full_name email salt now =
     (if \<not> has_permission am ''add_users'' then (db, False)
      else
        (case bcrypt_hashpw L (utf8_encode L password) salt of
           None \<Rightarrow> (db, False)
         | Some password_hash \<Rightarrow>
             if username \<in> set (map u_username (users db)) then (db, False)
             else
               (db\<lparr>users := users db @
                     [\<lparr>u_id = users_seq db + 1, u_username = username,
                       u_password_hash = password_hash, u_role = role,
                       u_full_name = full_name, u_email = email, u_created_at = now,
                       u_last_login = None, u_is_active = True\<rparr>],
                   users_seq := users_seq db + 1\<rparr>,
                True)))"

subsection \<open>What the libraries promise\<close>

text \<open>
  The round trips that the libraries document, each at one input: Fernet decrypts
  under the same key what it encrypted, and the UTF-8 codec decodes what it
  encoded; \<^verbatim>\<open>json.loads\<close> parses what \<^verbatim>\<open>json.dumps\<close> wrote. They are hypotheses of the
  theorems about the envelope, never facts of the model.
\<close>

definition envelope_contract :: "library \<Rightarrow> bytes \<Rightarrow> bytes \<Rightarrow> string \<Rightarrow> bool" where
  "envelope_contract L key iv s \<longleftrightarrow>
     fernet_decrypt L key (fernet_encrypt L key iv (utf8_encode L s)) = Some (utf8_encode L s)
     \<and> utf8_decode L (utf8_encode L s) = Some s"

definition json_contract :: "library \<Rightarrow> pydict \<Rightarrow> bool" where
  "json_contract L d \<longleftrightarrow> json_loads L (json_dumps L d) = Some d"

subsection \<open>Concrete inputs\<close>

text \<open>
  A small executable stand-in for the external libraries, so that the model can be
  run on concrete inputs: the cipher prefixes the key and reverses the plaintext,
  the codec is the identity, the serialiser writes the \<^verbatim>\<open>patient_id\<close> and \<^verbatim>\<open>name\<close>
  fields around a bar, and the password hash is the salt, a dollar sign and the
  password.
\<close>

definition sample_encrypt :: "bytes \<Rightarrow> bytes \<Rightarrow> bytes \<Rightarrow> bytes" where
  "sample_encrypt key iv plain = key @ rev plain"

definition sample_decrypt :: "bytes \<Rightarrow> bytes \<Rightarrow> bytes option" where
  "sample_decrypt key token =
     (if take (length key) token = key then Some (rev (drop (length key) token)) else None)"

definition sample_field :: "pydict \<Rightarrow> string \<Rightarrow> string" where
  "sample_field d k = (case d k of Some (PyStr s) \<Rightarrow> s | _ \<Rightarrow> [])"

definition sample_dumps :: "pydict \<Rightarrow> string" where
  "sample_dumps d = sample_field d ''patient_id'' @ ''|'' @ sample_field d ''name''"

definition sample_loads :: "string \<Rightarrow> pydict option" where
  "sample_loads s =
     Some [''patient_id'' \<mapsto> PyStr (takeWhile (\<lambda>c. c \<noteq> CHR ''|'') s),
           ''name'' \<mapsto> PyStr (drop 1 (dropWhile (\<lambda>c. c \<noteq> CHR ''|'') s))]"

definition sample_hashpw :: "bytes \<Rightarrow> bytes \<Rightarrow> bytes option" where
  "sample_hashpw password salt = Some (salt @ ''$'' @ password)"

definition sample_checkpw :: "bytes \<Rightarrow> bytes \<Rightarrow> bool option" where
  "sample_checkpw password hashed =
     Some (dropWhile (\<lambda>c. c \<noteq> CHR ''$'') hashed = ''$'' @ password)"

definition sample_library :: library where
  "sample_library =
     \<lparr>fernet_encrypt = sample_encrypt, fernet_decrypt = sample_decrypt,
      utf8_encode = (\<lambda>s. s), utf8_decode = Some,
      json_dumps = sample_dumps, json_loads = sample_loads,
      bcrypt_hashpw = sample_hashpw, bcrypt_checkpw = sample_checkpw\<rparr>"

text \<open>Two users: an active technician and a deactivated radiologist.\<close>

definition alice_row :: user_row where
  "alice_row =
     \<lparr>u_id = 1, u_username = ''alice'', u_password_hash = ''s1$Sup3r!'',
      u_role = ''technician'', u_full_name = ''Alice A'', u_email = None,
      u_created_at = ''2024-01-01 08:00:00'', u_last_login = None, u_is_active = True\<rparr>"

definition bob_row :: user_row where
  "bob_row =
     \<lparr>u_id = 2, u_username = ''bob'', u_password_hash = ''s2$hunter2'',
      u_role = ''radiologist'', u_full_name = ''Bob B'', u_email = None,
      u_created_at = ''2024-01-01 08:00:01'', u_last_login = None, u_is_active = False\<rparr>"

definition sample_db :: database where
  "sample_db =
     \<lparr>users = [alice_row, bob_row], users_seq = 2, patients = [], patients_seq = 0,
      usage_logs = [], usage_logs_seq = 0, audit_logs = [], audit_logs_seq = 0\<rparr>"

text \<open>The sessions that a login of each role leaves in \<^verbatim>\<open>self.current_user\<close>.\<close>

definition session_of :: "int \<Rightarrow> string \<Rightarrow> string \<Rightarrow> auth_manager" where
  "session_of uid name role =
     \<lparr>current_user = Some \<lparr>ud_id = uid, ud_username = name, ud_role = role,
        ud_full_name = name, ud_email = None, ud_login_time = ''2024-01-02 09:00:00''\<rparr>\<rparr>"

definition no_session :: auth_manager where
  "no_session = \<lparr>current_user = None\<rparr>"

text \<open>The payload of the scenario: patient \<^verbatim>\<open>P-100\<close>, Jane Doe.\<close>

definition jane :: pydict where
  "jane = [''patient_id'' \<mapsto> PyStr ''P-100'', ''name'' \<mapsto> PyStr ''Jane Doe'']"

text \<open>A ledger of two entries, written five seconds apart.\<close>

definition two_entries_db :: database where
  "two_entries_db =
     sample_db\<lparr>audit_logs :=
        [\<lparr>al_id = 1, al_user_id = None, al_action = ''CREATE'', al_resource_type = ''patient'',
          al_resource_id = 1, al_details = ''New patient added'', al_ip_address = None,
          al_timestamp = ''2024-01-01 00:00:00''\<rparr>,
         \<lparr>al_id = 2, al_user_id = Some 1, al_action = ''UPDATE'',
          al_resource_type = ''xray_image'', al_resource_id = 7,
          al_details = ''Image annotations updated'', al_ip_address = None,
          al_timestamp = ''2024-01-01 00:00:05''\<rparr>],
        audit_logs_seq := 2\<rparr>"

text \<open>
  A ledger of four entries: three written within the same second, one a second
  later.
\<close>

definition entry_at :: "int \<Rightarrow> timestamp \<Rightarrow> audit_row" where
  "entry_at i t =
     \<lparr>al_id = i, al_user_id = None, al_action = ''CREATE'', al_resource_type = ''patient'',
      al_resource_id = i, al_details = ''New patient added'', al_ip_address = None,
      al_timestamp = t\<rparr>"

definition same_second_db :: database where
  "same_second_db =
     sample_db\<lparr>audit_logs :=
        [entry_at 1 ''2024-01-01 00:00:00'', entry_at 2 ''2024-01-01 00:00:00'',
         entry_at 3 ''2024-01-01 00:00:00'', entry_at 4 ''2024-01-01 00:00:01''],
        audit_logs_seq := 4\<rparr>"

section \<open>Authorizer\<close>

lemma permissions_get_nonempty: "map_of permissions r = Some ps \<Longrightarrow> ps \<noteq> []"
  by (auto simp: permissions_def split: if_splits)

text \<open>
  C7. The permission check is fail-closed: for a current user of role \<open>r\<close>,
  \<open>has_permission\<close> holds for \<open>p\<close> exactly when the table maps \<open>r\<close> to a list that
  contains \<open>p\<close>; a role the table does not map is denied everything; and every list
  in the table is non-empty. The check is a function of the current user and the
  permission alone and returns only the boolean, so it has no effect and repeated
  calls agree.
\<close>

theorem has_permission_fail_closed:
  assumes "current_user am = Some u"
  shows "(has_permission am p \<longleftrightarrow>
            (\<exists>ps. map_of permissions (ud_role u) = Some ps \<and> p \<in> set ps))
       \<and> (map_of permissions (ud_role u) = None \<longrightarrow> \<not> has_permission am p)
       \<and> (\<forall>r ps. map_of permissions r = Some ps \<longrightarrow> ps \<noteq> [])"
proof -
  have "has_permission am p \<longleftrightarrow> p \<in> set (permissions_get (ud_role u))"
    using assms by (simp add: has_permission_def)
  moreover have "p \<in> set (permissions_get (ud_role u)) \<longleftrightarrow>
      (\<exists>ps. map_of permissions (ud_role u) = Some ps \<and> p \<in> set ps)"
    by (cases "map_of permissions (ud_role u)") (simp_all add: permissions_get_def)
  ultimately show ?thesis
    using permissions_get_nonempty by auto
qed

theorem has_permission_fail_closed_witness:
  "has_permission (session_of 1 ''alice'' ''technician'') ''add_patients''
   \<and> \<not> has_permission (session_of 1 ''alice'' ''technician'') ''add_users''
   \<and> \<not> has_permission (session_of 3 ''eve'' ''nurse'') ''view_patients''"
proof -
  let ?u = "\<lambda>uid name role. \<lparr>ud_id = uid, ud_username = name, ud_role = role,
        ud_full_name = name, ud_email = None, ud_login_time = ''2024-01-02 09:00:00''\<rparr>"
  have a: "current_user (session_of 1 ''alice'' ''technician'') = Some (?u 1 ''alice'' ''technician'')"
    by (simp add: session_of_def)
  have e: "current_user (session_of 3 ''eve'' ''nurse'') = Some (?u 3 ''eve'' ''nurse'')"
    by (simp add: session_of_def)
  show ?thesis
    using has_permission_fail_closed [OF a, of "''add_patients''"]
          has_permission_fail_closed [OF a, of "''add_users''"]
          has_permission_fail_closed [OF e, of "''view_patients''"]
    by (simp add: permissions_def)
qed

text \<open>
  C10. With no current user the permission check returns False for every
  permission string; \<open>has_permission\<close> is total, so there is no error.
\<close>

theorem no_session_denied: "has_permission (am\<lparr>current_user := None\<rparr>) permission = False"
  by (simp add: has_permission_def)

section \<open>Key manager\<close>

lemma makedirs_keeps_key_file:
  "makedirs_exist_ok fs ''data'' = Inr fs1 \<Longrightarrow> fs1 key_file = fs key_file"
  by (auto simp: makedirs_exist_ok_def key_file_def split: option.splits fs_node.splits)

lemma makedirs_again:
  "makedirs_exist_ok fs ''data'' = Inr fs1 \<Longrightarrow>
   makedirs_exist_ok (fs1(key_file \<mapsto> n)) ''data'' = Inr (fs1(key_file \<mapsto> n))"
  by (auto simp: makedirs_exist_ok_def key_file_def split: option.splits fs_node.splits)

text \<open>
  C5, as amended. Once the \<^verbatim>\<open>data\<close> directory is there (\<open>fs1\<close> is the file system
  after \<^verbatim>\<open>os.makedirs\<close>): when no key file exists, the generated key is written to
  it and returned, and a later call returns that same key and leaves the file as
  it is; when the key file is a readable file, its content is returned unchanged
  whatever its length or format, with no validation; when it is not readable, the
  call raises the error of \<^verbatim>\<open>open\<close> (PermissionError) and returns no key, generated
  or default. In the last two cases the key file is left as it was.
\<close>

theorem load_or_create_key_outcomes:
  assumes "makedirs_exist_ok fs ''data'' = Inr fs1"
  shows "(fs key_file = None \<longrightarrow>
            load_or_create_key fs generated
              = (fs1(key_file \<mapsto> RegularFile True generated), Inr generated)
          \<and> load_or_create_key (fs1(key_file \<mapsto> RegularFile True generated)) generated'
              = (fs1(key_file \<mapsto> RegularFile True generated), Inr generated))
       \<and> (fs key_file = Some (RegularFile True content) \<longrightarrow>
            load_or_create_key fs generated = (fs1, Inr content) \<and> fs1 key_file = fs key_file)
       \<and> (fs key_file = Some (RegularFile False content) \<longrightarrow>
            load_or_create_key fs generated = (fs1, Inl PermissionError)
          \<and> fs1 key_file = fs key_file)"
  using makedirs_keeps_key_file [OF assms] makedirs_again [OF assms] assms
  by (simp add: load_or_create_key_def)

theorem load_or_create_key_outcomes_witness:
  "snd (load_or_create_key Map.empty ''KEY-A'') = Inr ''KEY-A''
   \<and> snd (load_or_create_key (fst (load_or_create_key Map.empty ''KEY-A'')) ''KEY-B'')
        = Inr ''KEY-A''
   \<and> snd (load_or_create_key [key_file \<mapsto> RegularFile True ''KEY-A''] ''KEY-B'') = Inr ''KEY-A''
   \<and> snd (load_or_create_key [key_file \<mapsto> RegularFile False ''KEY-A''] ''KEY-B'')
        = Inl PermissionError"
proof -
  have m0: "makedirs_exist_ok Map.empty ''data'' = Inr [''data'' \<mapsto> Directory]"
    by (simp add: makedirs_exist_ok_def)
  have m1: "makedirs_exist_ok [key_file \<mapsto> RegularFile r ''KEY-A''] ''data''
              = Inr [key_file \<mapsto> RegularFile r ''KEY-A'', ''data'' \<mapsto> Directory]" for r
    by (simp add: makedirs_exist_ok_def key_file_def)
  show ?thesis
    using load_or_create_key_outcomes [OF m0, of "''KEY-A''" "''KEY-B''"]
          load_or_create_key_outcomes [OF m1 [of True], where generated = "''KEY-B''"
            and content = "''KEY-A''"]
          load_or_create_key_outcomes [OF m1 [of False], where generated = "''KEY-B''"
            and content = "''KEY-A''"]
    by simp
qed

text \<open>
  The claim as stated fails: a key file that holds the three bytes \<^verbatim>\<open>abc\<close>, which is
  no Fernet key, is loaded and returned as the key.
\<close>

theorem load_or_create_key_corrupt_counterexample:
  "load_or_create_key [''data'' \<mapsto> Directory, key_file \<mapsto> RegularFile True ''abc''] ''KEY-B''
     = ([''data'' \<mapsto> Directory, key_file \<mapsto> RegularFile True ''abc''], Inr ''abc'')"
  by (simp add: load_or_create_key_def makedirs_exist_ok_def key_file_def)

section \<open>Cipher envelope and record store\<close>

lemma find_appended:
  assumes "\<forall>y \<in> set xs. \<not> P y" and "P x"
  shows "find P (xs @ [x]) = Some x"
  using assms by (induction xs) simp_all

lemma decrypt_encrypt_data:
  assumes "envelope_contract L key iv s"
  shows "decrypt_data L key (encrypt_data L key iv s) = Inr s"
  using assms by (simp add: envelope_contract_def decrypt_data_def encrypt_data_def)

lemma add_patient_success:
  assumes "patient_data ''patient_id'' = Some v" and "bind_patient_id v = Inr pid"
    and "pid \<notin> set (map p_patient_id (patients db))"
  shows "add_patient L key db patient_data iv t_insert t_audit =
           (db\<lparr>patients := patients db @
                  [\<lparr>p_id = patients_seq db + 1, p_patient_id = pid,
                    p_encrypted_data = encrypt_data L key iv (json_dumps L patient_data),
                    p_created_at = t_insert, p_updated_at = t_insert\<rparr>],
                patients_seq := patients_seq db + 1,
                audit_logs := audit_logs db @
                  [\<lparr>al_id = audit_logs_seq db + 1, al_user_id = None, al_action = ''CREATE'',
                    al_resource_type = ''patient'', al_resource_id = patients_seq db + 1,
                    al_details = ''New patient added'', al_ip_address = None,
                    al_timestamp = t_audit\<rparr>],
                audit_logs_seq := audit_logs_seq db + 1\<rparr>,
            Inr (patients_seq db + 1))"
  using assms by (simp add: add_patient_def log_audit_action_def Let_def)

lemma get_after_add:
  assumes "patient_data ''patient_id'' = Some v" and "bind_patient_id v = Inr pid"
    and "pid \<notin> set (map p_patient_id (patients db))"
    and "envelope_contract L key iv (json_dumps L patient_data)"
    and "json_contract L patient_data"
    and "add_patient L key db patient_data iv t_insert t_audit = (db1, r)"
  shows "get_patient L key db1 pid =
           (db1, Inr (Some (patient_data
              (''id'' \<mapsto> PyInt (patients_seq db + 1),
               ''created_at'' \<mapsto> PyStr t_insert,
               ''updated_at'' \<mapsto> PyStr t_insert))))"
proof -
  let ?row = "\<lparr>p_id = patients_seq db + 1, p_patient_id = pid,
                p_encrypted_data = encrypt_data L key iv (json_dumps L patient_data),
                p_created_at = t_insert, p_updated_at = t_insert\<rparr>"
  have db1: "patients db1 = patients db @ [?row]"
    using add_patient_success [where patient_data = patient_data and L = L and key = key
        and iv = iv and t_insert = t_insert and t_audit = t_audit, OF assms(1,2,3)] assms(6)
    by auto
  have "find (\<lambda>r. p_patient_id r = pid) (patients db @ [?row]) = Some ?row"
    using assms(3) by (intro find_appended) auto
  then show ?thesis
    using db1 decrypt_encrypt_data [OF assms(4)] assms(5)
    by (simp add: get_patient_def json_contract_def)
qed

text \<open>The stand-in libraries keep their promises; the scenario, evaluated.\<close>

lemma sample_envelope: "envelope_contract sample_library key iv s"
  by (simp add: envelope_contract_def sample_library_def sample_encrypt_def sample_decrypt_def)

lemma sample_json_jane: "json_contract sample_library jane"
  by (simp add: json_contract_def sample_library_def sample_dumps_def sample_loads_def
        sample_field_def jane_def)

lemma jane_add:
  "add_patient sample_library ''K'' sample_db jane ''iv'' ''t1'' ''t2''
     = (sample_db\<lparr>patients :=
            [\<lparr>p_id = 1, p_patient_id = ''P-100'', p_encrypted_data = ''KeoD enaJ|001-P'',
              p_created_at = ''t1'', p_updated_at = ''t1''\<rparr>],
          patients_seq := 1,
          audit_logs :=
            [\<lparr>al_id = 1, al_user_id = None, al_action = ''CREATE'',
              al_resource_type = ''patient'', al_resource_id = 1,
              al_details = ''New patient added'', al_ip_address = None,
              al_timestamp = ''t2''\<rparr>],
          audit_logs_seq := 1\<rparr>, Inr 1)"
  by (simp add: add_patient_def log_audit_action_def Let_def jane_def sample_db_def
        encrypt_data_def sample_library_def sample_encrypt_def sample_dumps_def sample_field_def)

lemma jane_facts:
  "jane ''patient_id'' = Some (PyStr ''P-100'')"
  "bind_patient_id (PyStr ''P-100'') = Inr ''P-100''"
  "''P-100'' \<notin> set (map p_patient_id (patients sample_db))"
  by (simp_all add: jane_def sample_db_def)

lemma jane_get:
  "get_patient sample_library ''K''
      (fst (add_patient sample_library ''K'' sample_db jane ''iv'' ''t1'' ''t2'')) ''P-100''
     = (fst (add_patient sample_library ''K'' sample_db jane ''iv'' ''t1'' ''t2''),
        Inr (Some (jane(''id'' \<mapsto> PyInt 1, ''created_at'' \<mapsto> PyStr ''t1'',
                        ''updated_at'' \<mapsto> PyStr ''t1''))))"
proof -
  have a: "add_patient sample_library ''K'' sample_db jane ''iv'' ''t1'' ''t2''
      = (fst (add_patient sample_library ''K'' sample_db jane ''iv'' ''t1'' ''t2''), Inr 1)"
    by (simp add: jane_add)
  show ?thesis
    using get_after_add [OF jane_facts sample_envelope sample_json_jane a]
    by (simp add: sample_db_def)
qed

lemma add_patient_on_working:
  "add_patient_on Working L key db patient_data iv t_insert t_audit
     = add_patient L key db patient_data iv t_insert t_audit"
  by (simp add: add_patient_on_def add_patient_def Let_def
      split: option.splits sum.splits)

lemma jane_add_audit_fails:
  "add_patient_on FailsOnAuditInsert sample_library ''K'' sample_db jane ''iv'' ''t1'' ''t2''
     = (sample_db\<lparr>patients :=
            [\<lparr>p_id = 1, p_patient_id = ''P-100'', p_encrypted_data = ''KeoD enaJ|001-P'',
              p_created_at = ''t1'', p_updated_at = ''t1''\<rparr>],
          patients_seq := 1\<rparr>, Inl OperationalError)"
  by (simp add: add_patient_on_def Let_def jane_def sample_db_def
        encrypt_data_def sample_library_def sample_encrypt_def sample_dumps_def sample_field_def)

text \<open>
  C1, as amended. \<open>add_patient\<close> takes no caller and checks no permission, and it is
  not one transaction with its audit append: the row is committed first, the
  audit entry afterwards on a second connection. A call that returns the new id
  has appended exactly one ciphertext row (under a patient id not stored before)
  and exactly one audit entry for it, of verb \<^verbatim>\<open>CREATE\<close> and with no acting user. A
  call that raises writes no audit entry; it leaves the database as it was, unless
  it is the insert of the audit entry that failed: then the row is stored, with no
  audit entry. No entry of any other verb is ever written.
\<close>

theorem add_patient_outcomes:
  assumes "add_patient_on st L key db patient_data iv t_insert t_audit = (db', r)"
  shows "(\<forall>new_id. r = Inr new_id \<longrightarrow>
            st = Working \<and> new_id = patients_seq db + 1
          \<and> (\<exists>pid. pid \<notin> set (map p_patient_id (patients db))
               \<and> patients db' = patients db @
                   [\<lparr>p_id = new_id, p_patient_id = pid,
                     p_encrypted_data = encrypt_data L key iv (json_dumps L patient_data),
                     p_created_at = t_insert, p_updated_at = t_insert\<rparr>])
          \<and> audit_logs db' = audit_logs db @
               [\<lparr>al_id = audit_logs_seq db + 1, al_user_id = None, al_action = ''CREATE'',
                 al_resource_type = ''patient'', al_resource_id = new_id,
                 al_details = ''New patient added'', al_ip_address = None,
                 al_timestamp = t_audit\<rparr>]
          \<and> users db' = users db \<and> usage_logs db' = usage_logs db)
       \<and> (\<forall>e. r = Inl e \<longrightarrow>
            audit_logs db' = audit_logs db
          \<and> (if st = FailsOnAuditInsert \<and> e = OperationalError
              then \<exists>pid. pid \<notin> set (map p_patient_id (patients db))
                 \<and> patients db' = patients db @
                     [\<lparr>p_id = patients_seq db + 1, p_patient_id = pid,
                       p_encrypted_data = encrypt_data L key iv (json_dumps L patient_data),
                       p_created_at = t_insert, p_updated_at = t_insert\<rparr>]
              else db' = db))"
proof (cases "patient_data ''patient_id''")
  case None
  then show ?thesis
    using assms by (auto simp: add_patient_on_def)
next
  case (Some v)
  show ?thesis
  proof (cases "bind_patient_id v")
    case (Inl e)
    then have "e \<noteq> OperationalError"
      by (cases v) (auto split: if_splits)
    then show ?thesis
      using assms Some Inl by (auto simp: add_patient_on_def)
  next
    case (Inr pid)
    show ?thesis
    proof (cases "pid \<in> set (map p_patient_id (patients db))")
      case True
      then show ?thesis
        using assms Some Inr by (auto simp: add_patient_on_def)
    next
      case False
      then show ?thesis
        using assms Some Inr
        by (cases st) (auto simp: add_patient_on_def log_audit_action_def Let_def)
    qed
  qed
qed

theorem add_patient_outcomes_witness:
  "add_patient_on Working sample_library ''K'' sample_db jane ''iv'' ''t1'' ''t2''
     = (sample_db\<lparr>patients :=
            [\<lparr>p_id = 1, p_patient_id = ''P-100'', p_encrypted_data = ''KeoD enaJ|001-P'',
              p_created_at = ''t1'', p_updated_at = ''t1''\<rparr>],
          patients_seq := 1,
          audit_logs :=
            [\<lparr>al_id = 1, al_user_id = None, al_action = ''CREATE'',
              al_resource_type = ''patient'', al_resource_id = 1,
              al_details = ''New patient added'', al_ip_address = None,
              al_timestamp = ''t2''\<rparr>],
          audit_logs_seq := 1\<rparr>, Inr 1)
   \<and> add_patient_on Working sample_library ''K'' sample_db (jane(''patient_id'' := None))
       ''iv'' ''t1'' ''t2'' = (sample_db, Inl KeyError)
   \<and> add_patient_on FailsOnPatientInsert sample_library ''K'' sample_db jane ''iv'' ''t1''
       ''t2'' = (sample_db, Inl OperationalError)
   \<and> map p_patient_id (patients (fst
        (add_patient_on FailsOnAuditInsert sample_library ''K'' sample_db jane ''iv'' ''t1''
           ''t2''))) = [''P-100'']
   \<and> audit_logs (fst
        (add_patient_on FailsOnAuditInsert sample_library ''K'' sample_db jane ''iv'' ''t1''
           ''t2'')) = []"
proof -
  have r0: "add_patient_on Working sample_library ''K'' sample_db jane ''iv'' ''t1'' ''t2''
      = (fst (add_patient sample_library ''K'' sample_db jane ''iv'' ''t1'' ''t2''), Inr 1)"
    by (simp add: add_patient_on_working jane_add)
  obtain d1 where r1: "add_patient_on Working sample_library ''K'' sample_db
      (jane(''patient_id'' := None)) ''iv'' ''t1'' ''t2'' = (d1, Inl KeyError)"
    by (simp add: add_patient_on_def jane_def)
  obtain d2 where r2: "add_patient_on FailsOnPatientInsert sample_library ''K'' sample_db
      jane ''iv'' ''t1'' ''t2'' = (d2, Inl OperationalError)"
    by (simp add: add_patient_on_def jane_def sample_db_def)
  show ?thesis
    using add_patient_outcomes [OF r0] add_patient_outcomes [OF r1]
      add_patient_outcomes [OF r2] add_patient_outcomes [OF jane_add_audit_fails]
      r0 r1 r2 jane_add jane_add_audit_fails
    by (simp add: sample_db_def)
qed

text \<open>
  The claim as stated fails twice. Bob's role, radiologist, lacks \<^verbatim>\<open>add_patients\<close>,
  yet a call of \<open>add_patient\<close> made for him stores the row and writes a \<^verbatim>\<open>CREATE\<close>
  entry, not a \<^verbatim>\<open>PERMISSION_DENIED\<close> one. And when the insert of the audit entry
  fails, the call raises with the row stored and the audit log empty.
\<close>

theorem add_patient_unchecked_counterexample:
  "\<not> has_permission (session_of 2 ''bob'' ''radiologist'') ''add_patients''
   \<and> add_patient_on Working sample_library ''K'' sample_db jane ''iv'' ''t1'' ''t2''
     = (sample_db\<lparr>patients :=
            [\<lparr>p_id = 1, p_patient_id = ''P-100'', p_encrypted_data = ''KeoD enaJ|001-P'',
              p_created_at = ''t1'', p_updated_at = ''t1''\<rparr>],
          patients_seq := 1,
          audit_logs :=
            [\<lparr>al_id = 1, al_user_id = None, al_action = ''CREATE'',
              al_resource_type = ''patient'', al_resource_id = 1,
              al_details = ''New patient added'', al_ip_address = None,
              al_timestamp = ''t2''\<rparr>],
          audit_logs_seq := 1\<rparr>, Inr 1)
   \<and> add_patient_on FailsOnAuditInsert sample_library ''K'' sample_db jane ''iv'' ''t1'' ''t2''
     = (sample_db\<lparr>patients :=
            [\<lparr>p_id = 1, p_patient_id = ''P-100'', p_encrypted_data = ''KeoD enaJ|001-P'',
              p_created_at = ''t1'', p_updated_at = ''t1''\<rparr>],
          patients_seq := 1\<rparr>, Inl OperationalError)
   \<and> audit_logs (sample_db\<lparr>patients :=
            [\<lparr>p_id = 1, p_patient_id = ''P-100'', p_encrypted_data = ''KeoD enaJ|001-P'',
              p_created_at = ''t1'', p_updated_at = ''t1''\<rparr>],
          patients_seq := 1\<rparr>) = []"
  using jane_add jane_add_audit_fails
  by (simp add: add_patient_on_working has_permission_def session_of_def permissions_get_def
        permissions_def sample_db_def)

text \<open>
  C2, as amended. For every payload whose patient id is not stored yet, and with
  the libraries keeping their round trips on it: \<open>add_patient\<close> succeeds, and
  \<open>get_patient\<close> of that patient id then returns the payload with the keys \<^verbatim>\<open>id\<close>,
  \<^verbatim>\<open>created_at\<close> and \<^verbatim>\<open>updated_at\<close> set from the row, and returns the database as it
  got it. The ledger has exactly one new entry after both calls, the \<^verbatim>\<open>CREATE\<close> of
  the put: the read writes none.
\<close>

theorem put_then_get_audit:
  assumes "patient_data ''patient_id'' = Some v" and "bind_patient_id v = Inr pid"
    and "pid \<notin> set (map p_patient_id (patients db))"
    and "envelope_contract L key iv (json_dumps L patient_data)"
    and "json_contract L patient_data"
  shows "\<exists>db1 new_id.
           add_patient L key db patient_data iv t_insert t_audit = (db1, Inr new_id)
         \<and> get_patient L key db1 pid =
             (db1, Inr (Some (patient_data
                (''id'' \<mapsto> PyInt new_id,
                 ''created_at'' \<mapsto> PyStr t_insert,
                 ''updated_at'' \<mapsto> PyStr t_insert))))
         \<and> audit_logs db1 = audit_logs db @
               [\<lparr>al_id = audit_logs_seq db + 1, al_user_id = None, al_action = ''CREATE'',
                 al_resource_type = ''patient'', al_resource_id = new_id,
                 al_details = ''New patient added'', al_ip_address = None,
                 al_timestamp = t_audit\<rparr>]"
proof -
  obtain db1 where a: "add_patient L key db patient_data iv t_insert t_audit
      = (db1, Inr (patients_seq db + 1))"
    and l: "audit_logs db1 = audit_logs db @
               [\<lparr>al_id = audit_logs_seq db + 1, al_user_id = None, al_action = ''CREATE'',
                 al_resource_type = ''patient'', al_resource_id = patients_seq db + 1,
                 al_details = ''New patient added'', al_ip_address = None,
                 al_timestamp = t_audit\<rparr>]"
    using add_patient_success [where patient_data = patient_data and L = L and key = key
        and iv = iv and t_insert = t_insert and t_audit = t_audit, OF assms(1,2,3)]
    by simp
  show ?thesis
    using a l get_after_add [OF assms a] by blast
qed

theorem put_then_get_audit_witness:
  "snd (add_patient sample_library ''K'' sample_db jane ''iv'' ''t1'' ''t2'') = Inr 1
   \<and> snd (get_patient sample_library ''K''
        (fst (add_patient sample_library ''K'' sample_db jane ''iv'' ''t1'' ''t2'')) ''P-100'')
     = Inr (Some (jane(''id'' \<mapsto> PyInt 1, ''created_at'' \<mapsto> PyStr ''t1'',
                       ''updated_at'' \<mapsto> PyStr ''t1'')))
   \<and> map al_action (audit_logs
        (fst (add_patient sample_library ''K'' sample_db jane ''iv'' ''t1'' ''t2'')))
     = [''CREATE'']"
  using put_then_get_audit [OF jane_facts sample_envelope sample_json_jane,
      of "''K''" "''iv''" "''t1''" "''t2''"] jane_add
  by auto

text \<open>
  The claim as stated fails: after the put and the get of the scenario the ledger
  holds the \<^verbatim>\<open>CREATE\<close> entry alone; there is no \<^verbatim>\<open>READ\<close> entry.
\<close>

theorem get_patient_unaudited_counterexample:
  "map al_action (audit_logs (fst (get_patient sample_library ''K''
      (fst (add_patient sample_library ''K'' sample_db jane ''iv'' ''t1'' ''t2'')) ''P-100'')))
     = [''CREATE'']"
  by (simp add: jane_get) (simp add: jane_add)

text \<open>
  C4, as amended. Where Fernet and the UTF-8 codec keep their round trip on a
  string \<open>x\<close> (the empty string included), \<open>decrypt_data\<close> returns \<open>x\<close> from what
  \<open>encrypt_data\<close> made of it. A payload stored by \<open>add_patient\<close> comes back from
  \<open>get_patient\<close> under the same key with every key other than \<^verbatim>\<open>id\<close>, \<^verbatim>\<open>created_at\<close> and
  \<^verbatim>\<open>updated_at\<close> as it was stored; those three hold the row's id and timestamps,
  whatever the payload had there.
\<close>

theorem envelope_round_trip:
  "(envelope_contract L key iv x \<longrightarrow> decrypt_data L key (encrypt_data L key iv x) = Inr x)
   \<and> (patient_data ''patient_id'' = Some v \<and> bind_patient_id v = Inr pid
        \<and> pid \<notin> set (map p_patient_id (patients db))
        \<and> envelope_contract L key iv (json_dumps L patient_data)
        \<and> json_contract L patient_data \<longrightarrow>
      (\<exists>db1 new_id d.
          add_patient L key db patient_data iv t_insert t_audit = (db1, Inr new_id)
        \<and> snd (get_patient L key db1 pid) = Inr (Some d)
        \<and> (\<forall>k. k \<notin> {''id'', ''created_at'', ''updated_at''} \<longrightarrow> d k = patient_data k)
        \<and> d ''id'' = Some (PyInt new_id)
        \<and> d ''created_at'' = Some (PyStr t_insert)
        \<and> d ''updated_at'' = Some (PyStr t_insert)))"
proof (intro conjI impI)
  assume "envelope_contract L key iv x"
  then show "decrypt_data L key (encrypt_data L key iv x) = Inr x"
    by (rule decrypt_encrypt_data)
next
  assume h: "patient_data ''patient_id'' = Some v \<and> bind_patient_id v = Inr pid
        \<and> pid \<notin> set (map p_patient_id (patients db))
        \<and> envelope_contract L key iv (json_dumps L patient_data)
        \<and> json_contract L patient_data"
  obtain db1 r where a: "add_patient L key db patient_data iv t_insert t_audit = (db1, r)"
    by (cases "add_patient L key db patient_data iv t_insert t_audit")
  have r: "r = Inr (patients_seq db + 1)"
    using add_patient_success [where patient_data = patient_data and L = L and key = key
        and iv = iv and t_insert = t_insert and t_audit = t_audit and v = v and pid = pid
        and db = db] h a
    by simp
  let ?d = "patient_data(''id'' \<mapsto> PyInt (patients_seq db + 1),
               ''created_at'' \<mapsto> PyStr t_insert, ''updated_at'' \<mapsto> PyStr t_insert)"
  have g: "snd (get_patient L key db1 pid) = Inr (Some ?d)"
    using get_after_add [where patient_data = patient_data and L = L and key = key
        and iv = iv and t_insert = t_insert and t_audit = t_audit and v = v and pid = pid
        and db = db and ?db1.0 = db1 and r = r] h a
    by simp
  show "\<exists>db1 new_id d.
          add_patient L key db patient_data iv t_insert t_audit = (db1, Inr new_id)
        \<and> snd (get_patient L key db1 pid) = Inr (Some d)
        \<and> (\<forall>k. k \<notin> {''id'', ''created_at'', ''updated_at''} \<longrightarrow> d k = patient_data k)
        \<and> d ''id'' = Some (PyInt new_id)
        \<and> d ''created_at'' = Some (PyStr t_insert)
        \<and> d ''updated_at'' = Some (PyStr t_insert)"
    using a r g
    by (intro exI [of _ db1] exI [of _ "patients_seq db + 1"] exI [of _ ?d]) simp
qed

theorem envelope_round_trip_witness:
  "decrypt_data sample_library ''K'' (encrypt_data sample_library ''K'' ''iv'' []) = Inr []
   \<and> decrypt_data sample_library ''K'' (encrypt_data sample_library ''K'' ''iv'' ''name=Jane Doe'')
       = Inr ''name=Jane Doe''
   \<and> (case snd (get_patient sample_library ''K''
          (fst (add_patient sample_library ''K'' sample_db jane ''iv'' ''t1'' ''t2'')) ''P-100'')
       of Inr (Some d) \<Rightarrow> d ''name'' | _ \<Rightarrow> None) = Some (PyStr ''Jane Doe'')"
  using envelope_round_trip [where L = sample_library and key = "''K''" and iv = "''iv''"
      and x = "[]" and patient_data = jane and v = "PyStr ''P-100''" and pid = "''P-100''"
      and db = sample_db and t_insert = "''t1''" and t_audit = "''t2''"]
    envelope_round_trip [where L = sample_library and key = "''K''" and iv = "''iv''"
      and x = "''name=Jane Doe''" and patient_data = jane and v = "PyStr ''P-100''"
      and pid = "''P-100''" and db = sample_db and t_insert = "''t1''" and t_audit = "''t2''"]
    jane_facts sample_envelope sample_json_jane jane_add
  by (auto simp: jane_def)

text \<open>
  The claim as stated fails: what \<open>get_patient\<close> returns for the scenario is not the
  payload that was stored, but the payload with three keys more.
\<close>

theorem get_patient_adds_keys_counterexample:
  "snd (get_patient sample_library ''K''
      (fst (add_patient sample_library ''K'' sample_db jane ''iv'' ''t1'' ''t2'')) ''P-100'')
     = Inr (Some (jane(''id'' \<mapsto> PyInt 1, ''created_at'' \<mapsto> PyStr ''t1'',
                       ''updated_at'' \<mapsto> PyStr ''t1'')))
   \<and> jane(''id'' \<mapsto> PyInt 1, ''created_at'' \<mapsto> PyStr ''t1'', ''updated_at'' \<mapsto> PyStr ''t1'')
       \<noteq> jane"
proof -
  have "jane ''id'' = None"
    by (simp add: jane_def)
  then have "jane(''id'' \<mapsto> PyInt 1, ''created_at'' \<mapsto> PyStr ''t1'',
      ''updated_at'' \<mapsto> PyStr ''t1'') \<noteq> jane"
    by (auto dest!: fun_cong [where x = "''id''"])
  then show ?thesis
    by (simp add: jane_get)
qed

section \<open>Audit ledger\<close>

lemma order_by_timestamp_desc_sorted:
  "sorted_wrt (\<lambda>a b. al_timestamp b \<le> al_timestamp a) (order_by_timestamp_desc rows)"
proof -
  have "sorted (map al_timestamp (sort_key al_timestamp (rev rows)))"
    by (rule sorted_sort_key)
  then have "sorted_wrt (\<lambda>a b. al_timestamp a \<le> al_timestamp b)
      (sort_key al_timestamp (rev rows))"
    by (simp add: sorted_map)
  then show ?thesis
    by (simp add: order_by_timestamp_desc_def sorted_wrt_rev)
qed

lemma order_by_timestamp_desc_stable:
  "filter (\<lambda>r. al_timestamp r = t) (order_by_timestamp_desc rows)
     = filter (\<lambda>r. al_timestamp r = t) rows"
proof -
  have "filter (\<lambda>r. al_timestamp r = t) (order_by_timestamp_desc rows)
      = rev (filter (\<lambda>r. al_timestamp r = t) (sort_key al_timestamp (rev rows)))"
    by (simp add: order_by_timestamp_desc_def rev_filter)
  also have "\<dots> = rev (filter (\<lambda>r. al_timestamp r = t) (rev rows))"
    by (simp only: sort_key_stable)
  also have "\<dots> = filter (\<lambda>r. al_timestamp r = t) rows"
    by (simp add: rev_filter)
  finally show ?thesis .
qed

lemma audit_views_sorted:
  assumes "sorted_wrt (\<lambda>a b. al_timestamp b \<le> al_timestamp a) rows"
  shows "sorted_wrt (\<lambda>a b. av_timestamp b \<le> av_timestamp a) (map (audit_view_of us) rows)"
  using assms by (simp add: sorted_wrt_map audit_view_of_def)

lemma audit_views_filter:
  "filter (\<lambda>v. av_timestamp v = t) (map (audit_view_of us) rows)
     = map (audit_view_of us) (filter (\<lambda>r. al_timestamp r = t) rows)"
  by (induction rows) (simp_all add: audit_view_of_def)

lemma get_audit_logs_unlimited:
  "get_audit_logs db (- 1)
     = Inr (map (audit_view_of (users db)) (order_by_timestamp_desc (audit_logs db)))"
  by (simp add: get_audit_logs_def)

text \<open>
  C3, as amended. For every state of the ledger, \<open>get_audit_logs\<close> without a limit
  (a negative one) returns every entry of the ledger once, ordered by descending
  timestamp: the timestamp, not the sequence position, decides the order. Entries
  of one and the same timestamp keep the order in which the ledger holds them.
  With a limit that fits a 64-bit integer it returns that list, cut after the
  first \<open>limit\<close> entries when the limit is not negative.
\<close>

theorem get_audit_logs_newest_first:
  assumes "- (2 ^ 63) \<le> limit" and "limit < 2 ^ 63"
  shows "\<exists>newest_first.
           get_audit_logs db (- 1) = Inr newest_first
         \<and> mset newest_first = mset (map (audit_view_of (users db)) (audit_logs db))
         \<and> sorted_wrt (\<lambda>a b. av_timestamp b \<le> av_timestamp a) newest_first
         \<and> (\<forall>t. filter (\<lambda>v. av_timestamp v = t) newest_first
                = map (audit_view_of (users db))
                    (filter (\<lambda>r. al_timestamp r = t) (audit_logs db)))
         \<and> get_audit_logs db limit
             = Inr (if limit < 0 then newest_first else take (nat limit) newest_first)"
proof -
  let ?all = "map (audit_view_of (users db)) (order_by_timestamp_desc (audit_logs db))"
  have "mset ?all = mset (map (audit_view_of (users db)) (audit_logs db))"
    by (simp add: order_by_timestamp_desc_def)
  moreover have "sorted_wrt (\<lambda>a b. av_timestamp b \<le> av_timestamp a) ?all"
    by (rule audit_views_sorted) (rule order_by_timestamp_desc_sorted)
  moreover have "\<forall>t. filter (\<lambda>v. av_timestamp v = t) ?all
      = map (audit_view_of (users db)) (filter (\<lambda>r. al_timestamp r = t) (audit_logs db))"
    by (simp only: audit_views_filter order_by_timestamp_desc_stable) simp
  moreover have "get_audit_logs db limit
      = Inr (if limit < 0 then ?all else take (nat limit) ?all)"
    using assms by (simp add: get_audit_logs_def take_map)
  ultimately show ?thesis
    using get_audit_logs_unlimited by blast
qed

theorem get_audit_logs_newest_first_witness:
  "- (2 ^ 63) \<le> (2 :: int) \<and> (2 :: int) < 2 ^ 63
   \<and> map av_id (case get_audit_logs same_second_db 2 of Inr rows \<Rightarrow> rows | Inl e \<Rightarrow> [])
       = [4, 1]
   \<and> map av_id (case get_audit_logs same_second_db (- 1) of Inr rows \<Rightarrow> rows | Inl e \<Rightarrow> [])
       = [4, 1, 2, 3]
   \<and> map av_timestamp (case get_audit_logs two_entries_db (- 1) of Inr rows \<Rightarrow> rows
        | Inl e \<Rightarrow> []) = [''2024-01-01 00:00:05'', ''2024-01-01 00:00:00'']"
proof -
  have lo: "- (2 ^ 63) \<le> (2 :: int)" and hi: "(2 :: int) < 2 ^ 63"
    and lo': "- (2 ^ 63) \<le> (- 1 :: int)" and hi': "(- 1 :: int) < 2 ^ 63"
    by simp_all
  show ?thesis
    using get_audit_logs_newest_first [OF lo hi, of same_second_db]
          get_audit_logs_newest_first [OF lo' hi', of two_entries_db]
    by (simp add: get_audit_logs_def two_entries_db_def same_second_db_def entry_at_def
          sample_db_def order_by_timestamp_desc_def audit_view_of_def)
qed

text \<open>
  The claim as stated fails: of two entries written five seconds apart, the later
  one, with the greater sequence position, is returned first.
\<close>

theorem get_audit_logs_order_counterexample:
  "get_audit_logs two_entries_db 100
     = Inr [\<lparr>av_id = 2, av_username = ''alice'', av_action = ''UPDATE'',
              av_resource_type = ''xray_image'', av_resource_id = 7,
              av_details = ''Image annotations updated'',
              av_timestamp = ''2024-01-01 00:00:05''\<rparr>,
            \<lparr>av_id = 1, av_username = ''System'', av_action = ''CREATE'',
              av_resource_type = ''patient'', av_resource_id = 1,
              av_details = ''New patient added'',
              av_timestamp = ''2024-01-01 00:00:00''\<rparr>]
   \<and> \<not> sorted (map av_id
          (case get_audit_logs two_entries_db 100 of Inr rows \<Rightarrow> rows | Inl e \<Rightarrow> []))"
  by (simp add: get_audit_logs_def two_entries_db_def sample_db_def
        order_by_timestamp_desc_def audit_view_of_def join_username_def
        username_or_system_def alice_row_def bob_row_def)

section \<open>Authenticator\<close>

lemma find_update_user:
  assumes "find P us = Some row" and "\<And>u. P (f u) = P u"
  shows "find P (update_user uid f us) = Some (if u_id row = uid then f row else row)"
  using assms(1)
proof (induction us)
  case Nil
  then show ?case by simp
next
  case (Cons u us)
  then show ?case
    by (cases "P u") (simp_all add: update_user_def assms(2))
qed

text \<open>
  C6, as amended. A login succeeds when the username has a row, the row is active
  and the password verifies: it then returns the user data with the row's id,
  username, role, full name and email and the login time, stores it as the current
  user, and sets the row's \<^verbatim>\<open>last_login\<close>; it writes no entry to the audit log or the
  usage log. For an unknown username, for an inactive row and for a password that
  does not verify it returns the same value, \<^verbatim>\<open>None\<close>, and leaves the current user
  and the database as they were.
\<close>

theorem authenticate_user_outcomes:
  "(find (\<lambda>u. u_username u = username) (users db) = None \<longrightarrow>
      authenticate_user L am db username password t_update t_login = (am, db, None))
   \<and> (find (\<lambda>u. u_username u = username) (users db) = Some row \<and> \<not> u_is_active row \<longrightarrow>
      authenticate_user L am db username password t_update t_login = (am, db, None))
   \<and> (find (\<lambda>u. u_username u = username) (users db) = Some row \<and> u_is_active row
        \<and> bcrypt_checkpw L (utf8_encode L password) (u_password_hash row) \<noteq> Some True \<longrightarrow>
      authenticate_user L am db username password t_update t_login = (am, db, None))
   \<and> (find (\<lambda>u. u_username u = username) (users db) = Some row \<and> u_is_active row
        \<and> bcrypt_checkpw L (utf8_encode L password) (u_password_hash row) = Some True \<longrightarrow>
      (\<exists>am' db'. authenticate_user L am db username password t_update t_login
            = (am', db',
               Some \<lparr>ud_id = u_id row, ud_username = u_username row, ud_role = u_role row,
                     ud_full_name = u_full_name row, ud_email = u_email row,
                     ud_login_time = t_login\<rparr>)
        \<and> current_user am'
            = Some \<lparr>ud_id = u_id row, ud_username = u_username row, ud_role = u_role row,
                     ud_full_name = u_full_name row, ud_email = u_email row,
                     ud_login_time = t_login\<rparr>
        \<and> find (\<lambda>u. u_username u = username) (users db')
            = Some (row\<lparr>u_last_login := Some t_update\<rparr>)
        \<and> audit_logs db' = audit_logs db \<and> usage_logs db' = usage_logs db
        \<and> patients db' = patients db))"
proof -
  have "find (\<lambda>u. u_username u = username)
          (update_user (u_id row) (\<lambda>u. u\<lparr>u_last_login := Some t_update\<rparr>) (users db))
        = Some (row\<lparr>u_last_login := Some t_update\<rparr>)"
    if "find (\<lambda>u. u_username u = username) (users db) = Some row"
    using find_update_user [OF that, of "\<lambda>u. u\<lparr>u_last_login := Some t_update\<rparr>" "u_id row"]
    by simp
  then show ?thesis
    by (auto simp: authenticate_user_def Let_def split: option.splits bool.splits)
qed

theorem authenticate_user_outcomes_witness:
  "authenticate_user sample_library no_session sample_db ''mallory'' ''x'' ''t1'' ''t2''
     = (no_session, sample_db, None)
   \<and> authenticate_user sample_library no_session sample_db ''bob'' ''hunter2'' ''t1'' ''t2''
     = (no_session, sample_db, None)
   \<and> authenticate_user sample_library no_session sample_db ''alice'' ''wrong'' ''t1'' ''t2''
     = (no_session, sample_db, None)
   \<and> snd (snd (authenticate_user sample_library no_session sample_db ''alice'' ''Sup3r!''
         ''t1'' ''t2''))
     = Some \<lparr>ud_id = 1, ud_username = ''alice'', ud_role = ''technician'',
              ud_full_name = ''Alice A'', ud_email = None, ud_login_time = ''t2''\<rparr>"
proof -
  have f0: "find (\<lambda>u. u_username u = ''mallory'') (users sample_db) = None"
    by (simp add: sample_db_def alice_row_def bob_row_def)
  have f1: "find (\<lambda>u. u_username u = ''bob'') (users sample_db) = Some bob_row"
    by (simp add: sample_db_def alice_row_def bob_row_def)
  have f2: "find (\<lambda>u. u_username u = ''alice'') (users sample_db) = Some alice_row"
    by (simp add: sample_db_def alice_row_def bob_row_def)
  have c1: "bcrypt_checkpw sample_library (utf8_encode sample_library ''wrong'')
              (u_password_hash alice_row) = Some False"
    by (simp add: sample_library_def sample_checkpw_def alice_row_def)
  have c2: "bcrypt_checkpw sample_library (utf8_encode sample_library ''Sup3r!'')
              (u_password_hash alice_row) = Some True"
    by (simp add: sample_library_def sample_checkpw_def alice_row_def)
  show ?thesis
    using authenticate_user_outcomes [where username = "''mallory''" and db = sample_db
            and row = bob_row and L = sample_library and am = no_session and password = "''x''"
            and t_update = "''t1''" and t_login = "''t2''"]
          authenticate_user_outcomes [where username = "''bob''" and db = sample_db
            and row = bob_row and L = sample_library and am = no_session
            and password = "''hunter2''" and t_update = "''t1''" and t_login = "''t2''"]
          authenticate_user_outcomes [where username = "''alice''" and db = sample_db
            and row = alice_row and L = sample_library and am = no_session
            and password = "''wrong''" and t_update = "''t1''" and t_login = "''t2''"]
          authenticate_user_outcomes [where username = "''alice''" and db = sample_db
            and row = alice_row and L = sample_library and am = no_session
            and password = "''Sup3r!''" and t_update = "''t1''" and t_login = "''t2''"]
          f0 f1 f2 c1 c2
    by (auto simp: alice_row_def bob_row_def)
qed

text \<open>
  The claim as stated fails: Alice's login succeeds and the audit log is as empty
  afterwards as it was before; no \<^verbatim>\<open>LOGIN_SUCCESS\<close> entry is written.
\<close>

theorem authenticate_user_no_audit_counterexample:
  "snd (snd (authenticate_user sample_library no_session sample_db ''alice'' ''Sup3r!''
        ''t1'' ''t2''))
     = Some \<lparr>ud_id = 1, ud_username = ''alice'', ud_role = ''technician'',
              ud_full_name = ''Alice A'', ud_email = None, ud_login_time = ''t2''\<rparr>
   \<and> audit_logs (fst (snd (authenticate_user sample_library no_session sample_db ''alice''
        ''Sup3r!'' ''t1'' ''t2''))) = []"
  by (simp add: authenticate_user_def sample_db_def alice_row_def bob_row_def
        sample_library_def sample_checkpw_def update_user_def Let_def)

section \<open>Credential store\<close>

text \<open>
  C8, as amended. \<open>create_user\<close> returns True exactly when the current user holds
  \<^verbatim>\<open>add_users\<close>, bcrypt hashes the password, and no row has the username (exact,
  case-sensitive match); it then appends one active row with that username, hash
  and role. It returns False, its only failure value, when the username exists,
  and also when the permission is missing or the hashing fails. Whenever it returns
  False the database is unchanged: no row is added and no stored field changes.
\<close>

theorem create_user_outcomes:
  assumes "create_user L am db username password role full_name email salt now = (db', ok)"
  shows "(ok \<longleftrightarrow> has_permission am ''add_users''
              \<and> bcrypt_hashpw L (utf8_encode L password) salt \<noteq> None
              \<and> username \<notin> set (map u_username (users db)))
       \<and> (username \<in> set (map u_username (users db)) \<longrightarrow> \<not> ok)
       \<and> (\<not> ok \<longrightarrow> db' = db)
       \<and> (ok \<longrightarrow> (\<exists>h. bcrypt_hashpw L (utf8_encode L password) salt = Some h
              \<and> users db' = users db @
                   [\<lparr>u_id = users_seq db + 1, u_username = username, u_password_hash = h,
                     u_role = role, u_full_name = full_name, u_email = email,
                     u_created_at = now, u_last_login = None, u_is_active = True\<rparr>]))"
  using assms
  by (auto simp: create_user_def split: if_splits option.splits)

theorem create_user_outcomes_witness:
  "create_user sample_library (session_of 9 ''root'' ''admin'') sample_db ''alice'' ''pw''
      ''admin'' ''Alice Again'' None ''s3'' ''t1'' = (sample_db, False)
   \<and> create_user sample_library (session_of 9 ''root'' ''admin'') sample_db ''Alice'' ''pw''
      ''admin'' ''Alice Again'' None ''s3'' ''t1''
     = (sample_db\<lparr>users := [alice_row, bob_row,
           \<lparr>u_id = 3, u_username = ''Alice'', u_password_hash = ''s3$pw'',
             u_role = ''admin'', u_full_name = ''Alice Again'', u_email = None,
             u_created_at = ''t1'', u_last_login = None, u_is_active = True\<rparr>],
         users_seq := 3\<rparr>, True)"
proof -
  obtain d1 o1 where r1: "create_user sample_library (session_of 9 ''root'' ''admin'')
      sample_db ''alice'' ''pw'' ''admin'' ''Alice Again'' None ''s3'' ''t1'' = (d1, o1)"
    by (cases "create_user sample_library (session_of 9 ''root'' ''admin'')
      sample_db ''alice'' ''pw'' ''admin'' ''Alice Again'' None ''s3'' ''t1''")
  have "\<not> o1 \<and> d1 = sample_db"
    using create_user_outcomes [OF r1]
    by (simp add: sample_db_def alice_row_def bob_row_def)
  then show ?thesis
    using r1
    by (simp add: create_user_def has_permission_def session_of_def permissions_get_def
          permissions_def sample_library_def sample_hashpw_def sample_db_def alice_row_def
          bob_row_def)
qed

text \<open>
  The claim as stated fails: no user is called carol, yet the call made under
  Alice's session, a technician's, fails like a duplicate would.
\<close>

theorem create_user_denied_counterexample:
  "''carol'' \<notin> set (map u_username (users sample_db))
   \<and> create_user sample_library (session_of 1 ''alice'' ''technician'') sample_db ''carol''
        ''pw'' ''technician'' ''Carol C'' None ''s3'' ''t1'' = (sample_db, False)"
  by (simp add: create_user_def has_permission_def session_of_def permissions_get_def
        permissions_def sample_db_def alice_row_def bob_row_def)

text \<open>
  C9, as amended. \<open>change_password\<close> replaces the stored hash exactly when a row has
  the id, the old password verifies against its hash, and bcrypt hashes the new
  password; the new hash is then stored in that row and the result is True.
  Otherwise the result is False and the database is unchanged. The new password is
  not examined: there is no minimum length.
\<close>

theorem change_password_outcomes:
  assumes "change_password L db user_id old_password new_password salt = (db', ok)"
  shows "(ok \<longleftrightarrow> (\<exists>row h. find (\<lambda>u. u_id u = user_id) (users db) = Some row
              \<and> bcrypt_checkpw L (utf8_encode L old_password) (u_password_hash row) = Some True
              \<and> bcrypt_hashpw L (utf8_encode L new_password) salt = Some h))
       \<and> (\<not> ok \<longrightarrow> db' = db)
       \<and> (ok \<longrightarrow> (\<exists>h. bcrypt_hashpw L (utf8_encode L new_password) salt = Some h
              \<and> db' = db\<lparr>users :=
                    update_user user_id (\<lambda>u. u\<lparr>u_password_hash := h\<rparr>) (users db)\<rparr>))"
  using assms
  by (auto simp: change_password_def split: option.splits bool.splits)

theorem change_password_outcomes_witness:
  "change_password sample_library sample_db 1 ''guess'' ''N3w-Passw0rd'' ''s9''
     = (sample_db, False)
   \<and> change_password sample_library sample_db 1 ''Sup3r!'' ''N3w-Passw0rd'' ''s9''
     = (sample_db\<lparr>users := [alice_row\<lparr>u_password_hash := ''s9$N3w-Passw0rd''\<rparr>, bob_row]\<rparr>,
        True)"
proof -
  obtain d1 o1 where r1: "change_password sample_library sample_db 1 ''guess''
      ''N3w-Passw0rd'' ''s9'' = (d1, o1)"
    by (cases "change_password sample_library sample_db 1 ''guess'' ''N3w-Passw0rd'' ''s9''")
  have "\<not> o1 \<and> d1 = sample_db"
    using change_password_outcomes [OF r1]
    by (auto simp: sample_db_def alice_row_def bob_row_def sample_library_def
          sample_checkpw_def)
  then show ?thesis
    using r1
    by (simp add: change_password_def sample_library_def sample_hashpw_def sample_checkpw_def
          sample_db_def alice_row_def bob_row_def update_user_def)
qed

text \<open>
  The claim as stated fails: with the right old password the empty string is
  accepted as the new one, and its hash replaces the stored one.
\<close>

theorem change_password_empty_counterexample:
  "change_password sample_library sample_db 1 ''Sup3r!'' [] ''s9''
     = (sample_db\<lparr>users := [alice_row\<lparr>u_password_hash := ''s9$''\<rparr>, bob_row]\<rparr>, True)"
  by (simp add: change_password_def sample_library_def sample_hashpw_def sample_checkpw_def
        sample_db_def alice_row_def bob_row_def update_user_def)

end
